theory Spec2Isabelle
  imports Complex_Main "HOL-Library.Multiset"
begin

section \<open>Stock movers: the open-to-10AM change report of stock_movers.py\<close>

subsection \<open>Prices: float64 values with the IEEE special cases\<close>

text \<open>
  The price columns of the provider's frame are float64, and \<open>iloc\<close> hands out numpy
  float64 scalars. Their arithmetic never raises: a division by zero gives an infinity or
  NaN (with a warning on stderr), where a plain Python float would raise
  ZeroDivisionError. The special values are kept; arithmetic on finite values is exact
  (rounding and overflow are not modelled, and there is one zero, the positive one).
\<close>

datatype f64 = Fin real | PInf | NInf | NaN

fun isnan :: "f64 \<Rightarrow> bool" where
  "isnan NaN = True"
| "isnan _ = False"

fun fsub :: "f64 \<Rightarrow> f64 \<Rightarrow> f64" where
  "fsub NaN _ = NaN"
| "fsub _ NaN = NaN"
| "fsub (Fin a) (Fin b) = Fin (a - b)"
| "fsub (Fin a) PInf = NInf"
| "fsub (Fin a) NInf = PInf"
| "fsub PInf PInf = NaN"
| "fsub PInf _ = PInf"
| "fsub NInf NInf = NaN"
| "fsub NInf _ = NInf"

fun fdiv :: "f64 \<Rightarrow> f64 \<Rightarrow> f64" where
  "fdiv NaN _ = NaN"
| "fdiv _ NaN = NaN"
| "fdiv (Fin a) (Fin b) =
     (if b \<noteq> 0 then Fin (a / b)
      else if 0 < a then PInf else if a < 0 then NInf else NaN)"
| "fdiv (Fin a) _ = Fin 0"
| "fdiv PInf (Fin b) = (if b < 0 then NInf else PInf)"
| "fdiv NInf (Fin b) = (if b < 0 then PInf else NInf)"
| "fdiv _ _ = NaN"

fun fmul :: "f64 \<Rightarrow> f64 \<Rightarrow> f64" where
  "fmul NaN _ = NaN"
| "fmul _ NaN = NaN"
| "fmul (Fin a) (Fin b) = Fin (a * b)"
| "fmul (Fin a) PInf = (if 0 < a then PInf else if a < 0 then NInf else NaN)"
| "fmul (Fin a) NInf = (if 0 < a then NInf else if a < 0 then PInf else NaN)"
| "fmul PInf (Fin b) = (if 0 < b then PInf else if b < 0 then NInf else NaN)"
| "fmul NInf (Fin b) = (if 0 < b then NInf else if b < 0 then PInf else NaN)"
| "fmul PInf PInf = PInf"
| "fmul PInf NInf = NInf"
| "fmul NInf PInf = NInf"
| "fmul NInf NInf = PInf"

fun fabs :: "f64 \<Rightarrow> f64" where
  "fabs (Fin a) = Fin \<bar>a\<bar>"
| "fabs PInf = PInf"
| "fabs NInf = PInf"
| "fabs NaN = NaN"

text \<open>The comparisons \<open><\<close> and \<open>\<le>\<close> of float64: false as soon as one side is NaN.\<close>

fun fless :: "f64 \<Rightarrow> f64 \<Rightarrow> bool" where
  "fless NaN _ = False"
| "fless _ NaN = False"
| "fless (Fin a) (Fin b) = (a < b)"
| "fless (Fin a) PInf = True"
| "fless (Fin a) NInf = False"
| "fless PInf _ = False"
| "fless NInf NInf = False"
| "fless NInf _ = True"

fun fle :: "f64 \<Rightarrow> f64 \<Rightarrow> bool" where
  "fle NaN _ = False"
| "fle _ NaN = False"
| "fle (Fin a) (Fin b) = (a \<le> b)"
| "fle (Fin a) PInf = True"
| "fle (Fin a) NInf = False"
| "fle PInf PInf = True"
| "fle PInf _ = False"
| "fle NInf _ = True"

subsection \<open>Time: instants, dates and the window bounds\<close>

text \<open>
  A timestamp of the frame's index is an instant: nanoseconds since the epoch, as pandas
  stores it. \<open>tz_convert\<close> changes the zone a timestamp is shown in and not the instant,
  and the comparisons of line 39 compare instants.

  A Python datetime is a calendar date (days since the epoch), a wall-clock time in that
  day and the UTC offset of its tzinfo; its instant is the wall clock minus the offset.
\<close>

type_synonym instant = int

record datetime =
  dt_date :: int
  dt_time :: int
  dt_utcoffset :: int

definition ns_per_second :: int where
  "ns_per_second = 1000000000"

definition ns_per_day :: int where
  "ns_per_day = 86400 * ns_per_second"

definition time_of_day :: "int \<Rightarrow> int \<Rightarrow> int" where
  \<comment> \<open>\<open>time(h, m)\<close>, as nanoseconds since midnight\<close>
  "time_of_day h m = (h * 3600 + m * 60) * ns_per_second"

definition instant_of :: "datetime \<Rightarrow> instant" where
  "instant_of d = dt_date d * ns_per_day + dt_time d - dt_utcoffset d"

text \<open>
  \<open>est = pytz.timezone('US/Eastern')\<close>. A pytz zone object that has not been through
  \<open>localize\<close> carries the first entry of the zone's table, local mean time, whose offset
  is 4 hours 56 minutes west (\<open>LMT-1 day, 19:04:00\<close>); \<open>datetime.replace(tzinfo=est)\<close>
  attaches that object as it is. The offsets in force on the exchange's clock are
  5 hours west in winter (EST) and 4 hours west in summer (EDT).
\<close>

definition est_replace_utcoffset :: int where
  "est_replace_utcoffset = - ((4 * 3600 + 56 * 60) * ns_per_second)"

definition EST_utcoffset :: int where
  "EST_utcoffset = - (5 * 3600 * ns_per_second)"

definition EDT_utcoffset :: int where
  "EDT_utcoffset = - (4 * 3600 * ns_per_second)"

definition combine_replace_est :: "int \<Rightarrow> int \<Rightarrow> datetime" where
  \<comment> \<open>\<open>datetime.combine(today, t).replace(tzinfo=est)\<close>\<close>
  "combine_replace_est today t =
     \<lparr>dt_date = today, dt_time = t, dt_utcoffset = est_replace_utcoffset\<rparr>"

definition market_open :: "int \<Rightarrow> instant" where
  "market_open today = instant_of (combine_replace_est today (time_of_day 9 30))"

definition ten_am :: "int \<Rightarrow> instant" where
  "ten_am today = instant_of (combine_replace_est today (time_of_day 10 0))"

definition in_window :: "int \<Rightarrow> instant \<Rightarrow> bool" where
  \<comment> \<open>line 39: \<open>(hist.index >= market_open) & (hist.index <= ten_am)\<close>\<close>
  "in_window today t \<longleftrightarrow> market_open today \<le> t \<and> t \<le> ten_am today"

definition local_instant :: "int \<Rightarrow> int \<Rightarrow> int \<Rightarrow> instant" where
  \<comment> \<open>the instant at which a clock running at offset \<open>off\<close> shows time \<open>t\<close> on day \<open>d\<close>\<close>
  "local_instant off d t = d * ns_per_day + t - off"

subsection \<open>Bars, the provider and the per-ticker computation\<close>

record bar =
  bar_time :: instant
  bar_open :: f64
  bar_close :: f64

text \<open>
  \<open>yf.Ticker(ticker).history(period='1d', interval='1m')\<close> either raises or returns a
  frame, possibly empty; the rows are kept in the provider's order.
\<close>

datatype fetch_result = Raises string | Frame "bar list"

type_synonym provider = "string \<Rightarrow> fetch_result"

record change_record =
  Ticker :: string
  Open_price :: f64
  TenAM_price :: f64
  Change :: f64
  Change_pct :: f64

definition morning_data :: "int \<Rightarrow> bar list \<Rightarrow> bar list" where
  "morning_data today hist = filter (\<lambda>b. in_window today (bar_time b)) hist"

definition pct_change :: "f64 \<Rightarrow> f64 \<Rightarrow> f64" where
  \<comment> \<open>line 46: \<open>((ten_am_price - open_price) / open_price) * 100\<close>\<close>
  "pct_change open_price ten_am_price =
     fmul (fdiv (fsub ten_am_price open_price) open_price) (Fin 100)"

text \<open>
  One turn of the loop of lines 30 to 58. \<open>Inl e\<close>: the body raised \<open>e\<close> (caught on
  line 56); \<open>Inr None\<close>: one of the two \<open>continue\<close>s; \<open>Inr (Some r)\<close>: the record appended.
\<close>

definition process_ticker :: "int \<Rightarrow> provider \<Rightarrow> string \<Rightarrow> string + change_record option" where
  "process_ticker today yf ticker =
     (case yf ticker of
        Raises e \<Rightarrow> Inl e
      | Frame hist \<Rightarrow>
          if hist = [] then Inr None
          else let md = morning_data today hist in
            if length md < 2 then Inr None
            else let open_price = bar_open (hd md);
                     ten_am_price = bar_close (last md)
                 in Inr (Some \<lparr>Ticker = ticker, Open_price = open_price,
                                TenAM_price = ten_am_price,
                                Change = fsub ten_am_price open_price,
                                Change_pct = pct_change open_price ten_am_price\<rparr>))"

text \<open>
  The loop: what it prints and the list \<open>stock_data\<close> it builds. A raising ticker is
  reported and the loop goes on with the next one.
\<close>

fun collect :: "int \<Rightarrow> provider \<Rightarrow> string list \<Rightarrow> string list \<times> change_record list" where
  "collect today yf [] = ([], [])"
| "collect today yf (ticker # rest) =
     (let (out, recs) = collect today yf rest in
      case process_ticker today yf ticker of
        Inl e \<Rightarrow> ((''Error processing '' @ ticker @ '': '' @ e) # out, recs)
      | Inr None \<Rightarrow> (out, recs)
      | Inr (Some r) \<Rightarrow> (out, r # recs))"

definition STOCKS :: "string list" where
  "STOCKS = [''AAPL'', ''MSFT'', ''GOOGL'', ''AMZN'', ''TSLA'', ''META'', ''NVDA'', ''JPM'',
             ''V'', ''WMT'', ''JNJ'', ''PG'', ''MA'', ''HD'', ''DIS'', ''BAC'', ''ADBE'',
             ''NFLX'', ''CRM'', ''CSCO'']"

subsection \<open>Ranking: lines 60 to 66\<close>

definition Abs_Change :: "change_record \<Rightarrow> f64" where
  \<comment> \<open>line 62: the column \<open>df['Change %'].abs()\<close>\<close>
  "Abs_Change r = fabs (Change_pct r)"

text \<open>
  \<open>df.sort_values('Abs_Change', ascending=False)\<close> is pandas' \<open>nargsort\<close> with its
  defaults (\<open>kind='quicksort'\<close>, \<open>na_position='last'\<close>): the rows whose key is NaN are set
  aside, the others are reversed, sorted in ascending order by numpy's \<open>argsort\<close> and
  reversed again, and the NaN rows are put at the end. numpy's sort is library code; it is
  the parameter \<open>argsort\<close> here, a function that permutes rows, and \<open>sorts_ascending\<close> is
  what the library promises of it for every \<open>kind\<close>. The order it gives to rows with equal
  keys is not part of that promise.
\<close>

type_synonym sorter = "change_record list \<Rightarrow> change_record list"

definition sorts_ascending :: "sorter \<Rightarrow> bool" where
  "sorts_ascending argsort \<longleftrightarrow>
     (\<forall>rows. (\<forall>r \<in> set rows. \<not> isnan (Abs_Change r)) \<longrightarrow>
        mset (argsort rows) = mset rows \<and>
        sorted_wrt (\<lambda>a b. fle (Abs_Change a) (Abs_Change b)) (argsort rows))"

definition sort_values_desc :: "sorter \<Rightarrow> change_record list \<Rightarrow> change_record list" where
  "sort_values_desc argsort df =
     (let non_nans = rev (filter (\<lambda>r. \<not> isnan (Abs_Change r)) df);
          nans = filter (\<lambda>r. isnan (Abs_Change r)) df
      in rev (argsort non_nans) @ nans)"

definition rank_report :: "sorter \<Rightarrow> change_record list \<Rightarrow> change_record list" where
  \<comment> \<open>lines 60 to 66; adding and dropping the column \<open>Abs_Change\<close> leaves the records as they are\<close>
  "rank_report argsort stock_data =
     (let df = stock_data in
      if df \<noteq> [] then take 5 (sort_values_desc argsort df) else df)"

definition get_stock_changes ::
  "sorter \<Rightarrow> int \<Rightarrow> provider \<Rightarrow> string list \<times> change_record list" where
  "get_stock_changes argsort today yf =
     (let (out, stock_data) = collect today yf STOCKS
      in (out, rank_report argsort stock_data))"

subsection \<open>The emailer and the orchestrator\<close>

record config =
  SMTP_SERVER :: string
  SMTP_PORT :: int
  SENDER_EMAIL :: "string option"
  SENDER_PASSWORD :: "string option"
  RECIPIENT_EMAIL :: "string option"

text \<open>
  A row of the HTML table. The four numbers are shown with two decimals; the cells keep
  the numbers, the rendering of a float as text is not modelled.
\<close>

record html_row =
  row_ticker :: string
  row_open :: f64
  row_ten_am :: f64
  row_change :: f64
  row_change_pct :: f64
  row_class :: string

definition change_class :: "change_record \<Rightarrow> string" where
  \<comment> \<open>line 118: \<open>'positive' if row['Change %'] > 0 else 'negative'\<close>\<close>
  "change_class row = (if fless (Fin 0) (Change_pct row) then ''positive'' else ''negative'')"

definition render_row :: "change_record \<Rightarrow> html_row" where
  "render_row row =
     \<lparr>row_ticker = Ticker row, row_open = Open_price row, row_ten_am = TenAM_price row,
      row_change = Change row, row_change_pct = Change_pct row,
      row_class = change_class row\<rparr>"

record message =
  msg_subject :: string
  msg_from :: "string option"
  msg_to :: "string option"
  msg_date_line :: string
  msg_rows :: "html_row list"

text \<open>
  The mail relay, as the four calls of lines 144 to 147 see it: each either returns
  (\<open>None\<close>) or raises (\<open>Some e\<close>). An unset configuration value is Python's \<open>None\<close>.
\<close>

record relay =
  smtp_connect :: "string \<Rightarrow> int \<Rightarrow> string option"
  smtp_starttls :: "string option"
  smtp_login :: "string option \<Rightarrow> string option \<Rightarrow> string option"
  smtp_send_message :: "message \<Rightarrow> string option"

datatype event =
    Print string
  | PrintTable "change_record list"
  | SmtpConnect string int
  | SmtpStartTLS
  | SmtpLogin "string option" "string option"
  | SmtpSendMessage message

fun is_smtp :: "event \<Rightarrow> bool" where
  "is_smtp (Print _) = False"
| "is_smtp (PrintTable _) = False"
| "is_smtp _ = True"

fun is_connect :: "event \<Rightarrow> bool" where
  "is_connect (SmtpConnect _ _) = True"
| "is_connect _ = False"

definition smtp_session :: "config \<Rightarrow> relay \<Rightarrow> message \<Rightarrow> event list \<times> string option" where
  \<comment> \<open>the \<open>with\<close> block of lines 144 to 147: the calls made, and the exception if one is raised\<close>
  "smtp_session cfg srv msg =
     (let c = SmtpConnect (SMTP_SERVER cfg) (SMTP_PORT cfg);
          l = SmtpLogin (SENDER_EMAIL cfg) (SENDER_PASSWORD cfg);
          s = SmtpSendMessage msg
      in case smtp_connect srv (SMTP_SERVER cfg) (SMTP_PORT cfg) of
           Some e \<Rightarrow> ([c], Some e)
         | None \<Rightarrow>
        (case smtp_starttls srv of
           Some e \<Rightarrow> ([c, SmtpStartTLS], Some e)
         | None \<Rightarrow>
        (case smtp_login srv (SENDER_EMAIL cfg) (SENDER_PASSWORD cfg) of
           Some e \<Rightarrow> ([c, SmtpStartTLS, l], Some e)
         | None \<Rightarrow>
        (case smtp_send_message srv msg of
           Some e \<Rightarrow> ([c, SmtpStartTLS, l, s], Some e)
         | None \<Rightarrow> ([c, SmtpStartTLS, l, s], None)))))"

text \<open>
  The clock gives the two renderings of \<open>datetime.now()\<close> that the message uses, and
  \<open>datetime.now(est).date()\<close>.
\<close>

record clock =
  now_est_date :: int
  now_iso_date :: string
  now_long_date :: string

definition compose :: "config \<Rightarrow> clock \<Rightarrow> change_record list \<Rightarrow> message" where
  \<comment> \<open>lines 71 to 141\<close>
  "compose cfg clk stock_data =
     \<lparr>msg_subject = ''Top 5 Stock Movers - '' @ now_iso_date clk,
      msg_from = SENDER_EMAIL cfg,
      msg_to = RECIPIENT_EMAIL cfg,
      msg_date_line = ''Date: '' @ now_long_date clk,
      msg_rows = map render_row stock_data\<rparr>"

definition send_email ::
  "config \<Rightarrow> clock \<Rightarrow> relay \<Rightarrow> change_record list \<Rightarrow> event list \<times> string option" where
  \<comment> \<open>the second component is the exception that \<open>raise\<close> on line 151 lets through\<close>
  "send_email cfg clk srv stock_data =
     (case smtp_session cfg srv (compose cfg clk stock_data) of
        (evs, None) \<Rightarrow> (evs @ [Print ''Email sent successfully!''], None)
      | (evs, Some e) \<Rightarrow> (evs @ [Print (''Error sending email: '' @ e)], Some e))"

definition main ::
  "config \<Rightarrow> clock \<Rightarrow> sorter \<Rightarrow> provider \<Rightarrow> relay \<Rightarrow> event list \<times> string option" where
  "main cfg clk argsort yf srv =
     (let (out, stock_data) = get_stock_changes argsort (now_est_date clk) yf;
          fetched = Print ''Fetching stock data...'' # map Print out
      in if stock_data = [] then
           (fetched @
              [Print ''No stock data available. Market may be closed or data unavailable.''],
            None)
         else
           (let (evs, exn) = send_email cfg clk srv stock_data
            in (fetched @
                  [Print (CHR 0x0A # ''Top 5 Stock Movers:''), PrintTable stock_data,
                   Print (CHR 0x0A # ''Sending email...'')] @ evs,
                exn)))"

definition exit_status :: "string option \<Rightarrow> int" where
  \<comment> \<open>the interpreter: 0 when \<open>main\<close> returns, 1 when an exception leaves it\<close>
  "exit_status exn = (case exn of None \<Rightarrow> 0 | Some e \<Rightarrow> 1)"

subsection \<open>Vocabulary of the properties\<close>

definition ranks_before :: "f64 \<Rightarrow> f64 \<Rightarrow> bool" where
  \<comment> \<open>descending order of keys, a missing key (NaN) after every number\<close>
  "ranks_before x y \<longleftrightarrow> isnan y \<or> fle y x"

definition emits_record :: "int \<Rightarrow> provider \<Rightarrow> string \<Rightarrow> bool" where
  "emits_record today yf ticker =
     (case process_ticker today yf ticker of Inr (Some r) \<Rightarrow> True | _ \<Rightarrow> False)"

definition has_two_bars :: "int \<Rightarrow> provider \<Rightarrow> string \<Rightarrow> bool" where
  "has_two_bars today yf ticker =
     (case yf ticker of
        Raises e \<Rightarrow> False
      | Frame hist \<Rightarrow> 2 \<le> length (filter (\<lambda>b. in_window today (bar_time b)) hist))"

definition config_unset :: "config \<Rightarrow> bool" where
  "config_unset cfg \<longleftrightarrow>
     SENDER_EMAIL cfg = None \<or> SENDER_PASSWORD cfg = None \<or> RECIPIENT_EMAIL cfg = None"

subsection \<open>A sort that meets the library's promise\<close>

text \<open>Insertion sort, as numpy's \<open>kind='stable'\<close> behaves: equal keys keep their order.\<close>

fun insert_row :: "change_record \<Rightarrow> change_record list \<Rightarrow> change_record list" where
  "insert_row r [] = [r]"
| "insert_row r (x # xs) =
     (if fle (Abs_Change r) (Abs_Change x) then r # x # xs else x # insert_row r xs)"

definition argsort_stable :: sorter where
  "argsort_stable rows = foldr insert_row rows []"

subsection \<open>Sample runs\<close>

text \<open>
  16 January 2024, a trading day in winter; the bars are given by the time the exchange's
  clock (EST) shows.
\<close>

definition day0 :: int where
  "day0 = 19738"

definition bar_at :: "int \<Rightarrow> int \<Rightarrow> real \<Rightarrow> real \<Rightarrow> bar" where
  "bar_at h m p q =
     \<lparr>bar_time = local_instant EST_utcoffset day0 (time_of_day h m),
      bar_open = Fin p, bar_close = Fin q\<rparr>"

definition yf0 :: provider where
  "yf0 ticker =
     (if ticker = ''AAPL'' then Frame [bar_at 9 30 100 101, bar_at 9 45 101 102, bar_at 9 56 102 103]
      else if ticker = ''MSFT'' then Frame [bar_at 9 30 50 50, bar_at 9 50 50 49]
      else if ticker = ''GOOGL'' then Raises ''connection timed out''
      else if ticker = ''AMZN'' then Frame [bar_at 9 30 10 11, bar_at 10 30 11 12]
      else if ticker = ''TSLA'' then Frame [bar_at 9 30 200 205, bar_at 9 31 205 210]
      else if ticker = ''META'' then Frame [bar_at 9 30 100 99, bar_at 9 40 99 98]
      else if ticker = ''NVDA'' then Frame [bar_at 9 30 0 1, bar_at 9 31 1 1]
      else if ticker = ''JPM'' then Frame [bar_at 9 30 100 100, bar_at 9 31 100 101]
      else Frame [])"

definition yf_empty :: provider where
  "yf_empty ticker = Frame []"

definition cfg0 :: config where
  "cfg0 = \<lparr>SMTP_SERVER = ''smtp.gmail.com'', SMTP_PORT = 587,
           SENDER_EMAIL = Some ''alerts@example.com'', SENDER_PASSWORD = Some ''app-password'',
           RECIPIENT_EMAIL = Some ''me@example.com''\<rparr>"

definition cfg_unset0 :: config where
  "cfg_unset0 = \<lparr>SMTP_SERVER = ''smtp.gmail.com'', SMTP_PORT = 587, SENDER_EMAIL = None,
                 SENDER_PASSWORD = None, RECIPIENT_EMAIL = None\<rparr>"

definition clk0 :: clock where
  "clk0 = \<lparr>now_est_date = day0, now_iso_date = ''2024-01-16'',
           now_long_date = ''January 16, 2024''\<rparr>"

definition relay_rejecting :: relay where
  "relay_rejecting =
     \<lparr>smtp_connect = (\<lambda>host port. None), smtp_starttls = None,
      smtp_login = (\<lambda>user password. Some ''(535, Username and Password not accepted)''),
      smtp_send_message = (\<lambda>msg. None)\<rparr>"

definition report0 :: "change_record list" where
  "report0 =
     [\<lparr>Ticker = ''NVDA'', Open_price = Fin 0, TenAM_price = Fin 1, Change = Fin 1,
        Change_pct = PInf\<rparr>,
      \<lparr>Ticker = ''TSLA'', Open_price = Fin 200, TenAM_price = Fin 210, Change = Fin 10,
        Change_pct = Fin 5\<rparr>,
      \<lparr>Ticker = ''AAPL'', Open_price = Fin 100, TenAM_price = Fin 103, Change = Fin 3,
        Change_pct = Fin 3\<rparr>,
      \<lparr>Ticker = ''MSFT'', Open_price = Fin 50, TenAM_price = Fin 49, Change = Fin (- 1),
        Change_pct = Fin (- 2)\<rparr>,
      \<lparr>Ticker = ''META'', Open_price = Fin 100, TenAM_price = Fin 98, Change = Fin (- 2),
        Change_pct = Fin (- 2)\<rparr>]"

subsection \<open>numpy's default sort\<close>

text \<open>
  \<open>kind='quicksort'\<close> is numpy's introsort, \<open>aquicksort_\<close> of \<open>npysort/quicksort.cpp\<close>,
  which permutes an array of indices by comparing the keys they point to. A run of more
  than 17 entries is partitioned around the median of its first, middle and last entry,
  the larger part is put on a stack and the smaller one is taken up; a shorter run is
  sorted by insertion. Here the array holds the rows themselves. Past the depth limit
  \<open>2 * floor (log2 n)\<close> numpy switches to heapsort, which is not modelled: the loop then
  gives \<open>None\<close>, as it does when its fuel is used up.
\<close>

definition npy_less :: "change_record \<Rightarrow> change_record \<Rightarrow> bool" where
  \<comment> \<open>\<open>a < b || (b != b && a == a)\<close> on the keys\<close>
  "npy_less r s \<longleftrightarrow>
     fless (Abs_Change r) (Abs_Change s) \<or> (isnan (Abs_Change s) \<and> \<not> isnan (Abs_Change r))"



fun npy_get_msb :: "nat \<Rightarrow> nat" where
  "npy_get_msb n = (if n < 2 then 0 else 1 + npy_get_msb (n div 2))"







fun insertion_shift ::
  "change_record list \<Rightarrow> nat \<Rightarrow> nat \<Rightarrow> change_record \<Rightarrow> change_record list" where
  \<comment> \<open>\<open>while (pj > pl && less(vp, v[*pk])) *pj-- = *pk--; *pj = vi\<close>\<close>
  "insertion_shift t pl pj vi =
     (if pl < pj \<and> npy_less vi (t ! (pj - 1))
      then insertion_shift (t[pj := t ! (pj - 1)]) pl (pj - 1) vi
      else t[pj := vi])"

function insertion_loop :: "change_record list \<Rightarrow> nat \<Rightarrow> nat \<Rightarrow> nat \<Rightarrow> change_record list" where
  \<comment> \<open>\<open>for (pi = pl + 1; pi <= pr; ++pi)\<close>\<close>
  "insertion_loop t pl pr p_i =
     (if p_i \<le> pr then insertion_loop (insertion_shift t pl p_i (t ! p_i)) pl pr (p_i + 1) else t)"
  by pat_completeness auto
termination
  by (relation "measure (\<lambda>(t, pl, pr, p_i). Suc pr - p_i)") auto

declare insertion_shift.simps [simp del] insertion_loop.simps [simp del]
  npy_get_msb.simps [simp del]








section \<open>Properties\<close>

subsection \<open>Facts about the float comparisons and the sample sort\<close>

lemma fle_total: "\<not> isnan x \<Longrightarrow> \<not> isnan y \<Longrightarrow> fle x y \<or> fle y x"
  by (cases x; cases y) auto

lemma fle_trans: "fle x y \<Longrightarrow> fle y z \<Longrightarrow> fle x z"
  by (cases x; cases y; cases z) auto

lemma mset_insert_row: "mset (insert_row r xs) = add_mset r (mset xs)"
  by (induction xs) auto

lemma set_insert_row: "set (insert_row r xs) = insert r (set xs)"
  by (induction xs) auto

lemma sorted_insert_row:
  assumes "sorted_wrt (\<lambda>a b. fle (Abs_Change a) (Abs_Change b)) xs"
    and "\<not> isnan (Abs_Change r)" and "\<forall>x \<in> set xs. \<not> isnan (Abs_Change x)"
  shows "sorted_wrt (\<lambda>a b. fle (Abs_Change a) (Abs_Change b)) (insert_row r xs)"
  using assms
proof (induction xs)
  case Nil
  then show ?case by simp
next
  case (Cons x xs)
  show ?case
  proof (cases "fle (Abs_Change r) (Abs_Change x)")
    case True
    with Cons.prems show ?thesis by (auto intro: fle_trans)
  next
    case False
    with Cons.prems have "fle (Abs_Change x) (Abs_Change r)"
      using fle_total by auto
    with False Cons show ?thesis by (auto simp: set_insert_row)
  qed
qed

lemma argsort_stable_sorts: "sorts_ascending argsort_stable"
proof -
  have "mset (foldr insert_row rows []) = mset rows \<and>
        ((\<forall>r \<in> set rows. \<not> isnan (Abs_Change r)) \<longrightarrow>
          sorted_wrt (\<lambda>a b. fle (Abs_Change a) (Abs_Change b)) (foldr insert_row rows []))" for rows
  proof (induction rows)
    case Nil
    then show ?case by simp
  next
    case (Cons r rows)
    then have m: "mset (foldr insert_row rows []) = mset rows" by simp
    then have s: "set (foldr insert_row rows []) = set rows" by (rule mset_eq_setD)
    show ?case using Cons m s by (auto simp: mset_insert_row intro!: sorted_insert_row)
  qed
  then show ?thesis by (simp add: sorts_ascending_def argsort_stable_def)
qed

subsection \<open>The ranking\<close>

lemma sort_values_desc_mset:
  assumes "sorts_ascending argsort"
  shows "mset (sort_values_desc argsort df) = mset df"
proof -
  let ?nn = "rev (filter (\<lambda>r. \<not> isnan (Abs_Change r)) df)"
  have "mset (argsort ?nn) = mset ?nn"
    using assms by (simp add: sorts_ascending_def)
  then show ?thesis by (simp add: sort_values_desc_def Let_def)
qed

lemma sorted_wrt_all: "(\<And>x y. x \<in> set xs \<Longrightarrow> y \<in> set xs \<Longrightarrow> P x y) \<Longrightarrow> sorted_wrt P xs"
  by (induction xs) auto

lemma sort_values_desc_sorted:
  assumes "sorts_ascending argsort"
  shows "sorted_wrt (\<lambda>a b. ranks_before (Abs_Change a) (Abs_Change b)) (sort_values_desc argsort df)"
proof -
  let ?nn = "rev (filter (\<lambda>r. \<not> isnan (Abs_Change r)) df)"
  let ?na = "filter (\<lambda>r. isnan (Abs_Change r)) df"
  have nn: "\<forall>r \<in> set ?nn. \<not> isnan (Abs_Change r)" by simp
  from assms nn have asc: "sorted_wrt (\<lambda>a b. fle (Abs_Change a) (Abs_Change b)) (argsort ?nn)"
    unfolding sorts_ascending_def by blast
  have "sorted_wrt (\<lambda>a b. ranks_before (Abs_Change b) (Abs_Change a)) (argsort ?nn)"
    by (rule sorted_wrt_mono_rel[OF _ asc]) (simp add: ranks_before_def)
  then have 1: "sorted_wrt (\<lambda>a b. ranks_before (Abs_Change a) (Abs_Change b)) (rev (argsort ?nn))"
    by (simp add: sorted_wrt_rev)
  have 2: "sorted_wrt (\<lambda>a b. ranks_before (Abs_Change a) (Abs_Change b)) ?na"
    by (rule sorted_wrt_all) (simp add: ranks_before_def)
  have 3: "\<forall>x \<in> set (rev (argsort ?nn)). \<forall>y \<in> set ?na. ranks_before (Abs_Change x) (Abs_Change y)"
    by (simp add: ranks_before_def)
  show ?thesis
    unfolding sort_values_desc_def Let_def sorted_wrt_append using 1 2 3 by blast
qed

lemma rank_report_length:
  assumes "sorts_ascending argsort"
  shows "length (rank_report argsort sd) = min 5 (length sd)"
proof -
  have "length (sort_values_desc argsort sd) = length sd"
    using sort_values_desc_mset[OF assms, of sd] by (rule mset_eq_length)
  then show ?thesis by (auto simp: rank_report_def Let_def)
qed

lemma rank_report_sorted:
  assumes "sorts_ascending argsort"
  shows "sorted_wrt (\<lambda>a b. ranks_before (Abs_Change a) (Abs_Change b)) (rank_report argsort sd)"
  using sort_values_desc_sorted[OF assms, of sd]
  by (auto simp: rank_report_def Let_def intro: sorted_wrt_take)


lemma get_stock_changes_snd:
  "snd (get_stock_changes argsort today yf) = rank_report argsort (snd (collect today yf STOCKS))"
  by (cases "collect today yf STOCKS") (simp add: get_stock_changes_def)

lemma get_stock_changes_fst:
  "fst (get_stock_changes argsort today yf) = fst (collect today yf STOCKS)"
  by (cases "collect today yf STOCKS") (simp add: get_stock_changes_def)

subsection \<open>The loop over the tickers\<close>

lemma emits_iff_two_bars: "emits_record today yf ticker = has_two_bars today yf ticker"
  by (simp add: emits_record_def has_two_bars_def process_ticker_def morning_data_def Let_def
      split: fetch_result.splits)

lemma collect_tickers:
  "map Ticker (snd (collect today yf tickers)) = filter (has_two_bars today yf) tickers"
  by (induction tickers)
     (auto simp: process_ticker_def has_two_bars_def Let_def morning_data_def
        split: prod.splits fetch_result.splits)

lemma collect_length:
  "length (snd (collect today yf tickers)) = length (filter (emits_record today yf) tickers)"
  using collect_tickers[of today yf tickers, THEN arg_cong, of length]
  by (simp add: emits_iff_two_bars[abs_def])

subsection \<open>Evaluation of the sample runs\<close>

lemmas time_defs = in_window_def market_open_def ten_am_def instant_of_def
  combine_replace_est_def time_of_day_def ns_per_day_def ns_per_second_def
  est_replace_utcoffset_def EST_utcoffset_def local_instant_def

lemmas sample_defs = STOCKS_def yf0_def process_ticker_def morning_data_def bar_at_def day0_def
  time_defs pct_change_def Let_def

lemma collect_yf0:
  "collect day0 yf0 STOCKS =
    ([''Error processing GOOGL: connection timed out''],
     [\<lparr>Ticker = ''AAPL'', Open_price = Fin 100, TenAM_price = Fin 103, Change = Fin 3,
        Change_pct = Fin 3\<rparr>,
      \<lparr>Ticker = ''MSFT'', Open_price = Fin 50, TenAM_price = Fin 49, Change = Fin (- 1),
        Change_pct = Fin (- 2)\<rparr>,
      \<lparr>Ticker = ''TSLA'', Open_price = Fin 200, TenAM_price = Fin 210, Change = Fin 10,
        Change_pct = Fin 5\<rparr>,
      \<lparr>Ticker = ''META'', Open_price = Fin 100, TenAM_price = Fin 98, Change = Fin (- 2),
        Change_pct = Fin (- 2)\<rparr>,
      \<lparr>Ticker = ''NVDA'', Open_price = Fin 0, TenAM_price = Fin 1, Change = Fin 1,
        Change_pct = PInf\<rparr>,
      \<lparr>Ticker = ''JPM'', Open_price = Fin 100, TenAM_price = Fin 101, Change = Fin 1,
        Change_pct = Fin 1\<rparr>])"
  by (simp add: sample_defs)

lemma get_stock_changes_yf0:
  "get_stock_changes argsort_stable day0 yf0 =
     ([''Error processing GOOGL: connection timed out''], report0)"
  by (simp add: get_stock_changes_def collect_yf0 rank_report_def sort_values_desc_def
      argsort_stable_def Abs_Change_def report0_def)

lemma two_bars_yf0:
  "filter (has_two_bars day0 yf0) STOCKS = [''AAPL'', ''MSFT'', ''TSLA'', ''META'', ''NVDA'', ''JPM'']"
  by (simp add: has_two_bars_def STOCKS_def yf0_def bar_at_def day0_def time_defs)

lemma collect_yf_empty: "collect today yf_empty tickers = ([], [])"
  by (induction tickers) (simp_all add: process_ticker_def yf_empty_def)

lemma get_stock_changes_yf_empty: "get_stock_changes argsort today yf_empty = ([], [])"
  by (simp add: get_stock_changes_def collect_yf_empty rank_report_def)

subsection \<open>Claims about the Change Calculator\<close>

text \<open>
  C1. Whatever the provider returns, and for every library sort that sorts, the report of
  \<open>get_stock_changes\<close> has \<open>min 5 n\<close> records, \<open>n\<close> being the number of tickers that
  yield a record, and its records are in descending order of \<open>|Change %|\<close> (a record
  whose key is NaN comes after those whose key is a number).
\<close>

theorem report_length_and_order:
  assumes "sorts_ascending argsort"
  shows "length (snd (get_stock_changes argsort today yf)) =
           min 5 (length (filter (emits_record today yf) STOCKS)) \<and>
         sorted_wrt (\<lambda>a b. ranks_before (Abs_Change a) (Abs_Change b))
           (snd (get_stock_changes argsort today yf))"
  using rank_report_length[OF assms] rank_report_sorted[OF assms]
  by (simp add: get_stock_changes_snd collect_length)

theorem report_length_and_order_witness:
  "sorts_ascending argsort_stable \<and>
   length (snd (get_stock_changes argsort_stable day0 yf0)) = 5 \<and>
   length (filter (emits_record day0 yf0) STOCKS) = 6 \<and>
   map Abs_Change (snd (get_stock_changes argsort_stable day0 yf0)) =
     [PInf, Fin 5, Fin 3, Fin 2, Fin 2] \<and>
   sorted_wrt (\<lambda>a b. ranks_before (Abs_Change a) (Abs_Change b))
     (snd (get_stock_changes argsort_stable day0 yf0))"
  using report_length_and_order[OF argsort_stable_sorts, of day0 yf0] argsort_stable_sorts
  by (simp add: get_stock_changes_yf0 report0_def Abs_Change_def emits_iff_two_bars[abs_def]
      two_bars_yf0)





text \<open>
  C4. The filter is inclusive at both bounds, but the bounds are not 09:30 and 10:00 on the
  exchange's clock. \<open>market_open\<close> and \<open>ten_am\<close> are built with
  \<open>replace(tzinfo=est)\<close>, so they are 09:30 and 10:00 at the zone's local mean time,
  4 minutes ahead of EST and 56 minutes behind EDT. On a winter day the bar stamped
  10:00:00 on the exchange's clock is left out and the bar stamped 09:29:59 is let in; on
  a summer day (1 July 2024) the bar stamped 09:30:00 is left out.
\<close>

theorem window_on_exchange_clock:
  "\<not> in_window 19738 (local_instant EST_utcoffset 19738 (time_of_day 10 0)) \<and>
   in_window 19738 (local_instant EST_utcoffset 19738 (time_of_day 9 30 - ns_per_second)) \<and>
   in_window 19738 (local_instant EST_utcoffset 19738 (time_of_day 9 26)) \<and>
   \<not> in_window 19738 (local_instant EST_utcoffset 19738 (time_of_day 9 56 + ns_per_second)) \<and>
   \<not> in_window 19905 (local_instant EDT_utcoffset 19905 (time_of_day 9 30)) \<and>
   \<not> in_window 19905 (local_instant EDT_utcoffset 19905 (time_of_day 10 0))"
  by (simp add: time_defs EDT_utcoffset_def)

lemma in_window_local_mean_time:
  "in_window today t \<longleftrightarrow>
     local_instant est_replace_utcoffset today (time_of_day 9 30) \<le> t \<and>
     t \<le> local_instant est_replace_utcoffset today (time_of_day 10 0)"
  by (simp add: in_window_def market_open_def ten_am_def instant_of_def combine_replace_est_def
      local_instant_def)

text \<open>
  C6 as stated fails: the prices are numpy float64 values, whose division by zero raises
  nothing. NVDA opens at 0 in the sample run, and a record with an infinite percent change
  is emitted for it.
\<close>

theorem zero_open_counterexample:
  "yf0 ''NVDA'' = Frame [bar_at 9 30 0 1, bar_at 9 31 1 1] \<and>
   bar_open (hd (morning_data day0 [bar_at 9 30 0 1, bar_at 9 31 1 1])) = Fin 0 \<and>
   process_ticker day0 yf0 ''NVDA'' =
     Inr (Some \<lparr>Ticker = ''NVDA'', Open_price = Fin 0, TenAM_price = Fin 1,
                 Change = Fin 1, Change_pct = PInf\<rparr>)"
  by (simp add: sample_defs)

lemma pct_change_zero_open: "pct_change (Fin 0) q \<in> {PInf, NInf, NaN}"
  by (cases q) (auto simp: pct_change_def)

text \<open>
  C6, amended. A ticker whose first bar in the window has an open price of exactly zero
  (and which has two bars in the window) raises no error: nothing is printed for it, a
  record is appended whose percent change is an infinity or NaN, and the loop goes on with
  the remaining tickers.
\<close>

theorem zero_open_emits_nonfinite:
  assumes "yf ticker = Frame hist" and "2 \<le> length (morning_data today hist)"
    and "bar_open (hd (morning_data today hist)) = Fin 0"
  shows "\<exists>r. process_ticker today yf ticker = Inr (Some r) \<and>
           Change_pct r \<in> {PInf, NInf, NaN} \<and>
           collect today yf (ticker # rest) =
             (fst (collect today yf rest), r # snd (collect today yf rest))"
proof -
  let ?md = "morning_data today hist"
  let ?r = "\<lparr>Ticker = ticker, Open_price = Fin 0, TenAM_price = bar_close (last ?md),
             Change = fsub (bar_close (last ?md)) (Fin 0),
             Change_pct = pct_change (Fin 0) (bar_close (last ?md))\<rparr>"
  from assms have p: "process_ticker today yf ticker = Inr (Some ?r)"
    by (auto simp: process_ticker_def Let_def morning_data_def)
  then have "collect today yf (ticker # rest) =
      (fst (collect today yf rest), ?r # snd (collect today yf rest))"
    by (cases "collect today yf rest") simp
  with p pct_change_zero_open[of "bar_close (last ?md)"] show ?thesis by simp
qed

theorem zero_open_emits_nonfinite_witness:
  "yf0 ''NVDA'' = Frame [bar_at 9 30 0 1, bar_at 9 31 1 1] \<and>
   length (morning_data day0 [bar_at 9 30 0 1, bar_at 9 31 1 1]) = 2 \<and>
   bar_open (hd (morning_data day0 [bar_at 9 30 0 1, bar_at 9 31 1 1])) = Fin 0 \<and>
   map Ticker (snd (collect day0 yf0 [''NVDA'', ''JPM''])) = [''NVDA'', ''JPM''] \<and>
   map Change_pct (snd (collect day0 yf0 [''NVDA'', ''JPM''])) = [PInf, Fin 1] \<and>
   fst (collect day0 yf0 [''NVDA'', ''JPM'']) = []"
  using zero_open_emits_nonfinite[of yf0 "''NVDA''" "[bar_at 9 30 0 1, bar_at 9 31 1 1]" day0
      "[''JPM'']"]
  by (simp add: sample_defs)

subsection \<open>The order of tied records\<close>









subsection \<open>Claims about the orchestrator and the emailer\<close>

lemma smtp_session_shape:
  "\<exists>rest. fst (smtp_session cfg srv msg) = SmtpConnect (SMTP_SERVER cfg) (SMTP_PORT cfg) # rest \<and>
     \<not> list_ex is_connect rest \<and> list_all is_smtp rest"
  by (simp add: smtp_session_def Let_def split: option.splits)

lemma main_empty:
  assumes "snd (get_stock_changes argsort (now_est_date clk) yf) = []"
  shows "main cfg clk argsort yf srv =
           (Print ''Fetching stock data...'' #
              map Print (fst (get_stock_changes argsort (now_est_date clk) yf)) @
              [Print ''No stock data available. Market may be closed or data unavailable.''],
            None)"
  using assms by (cases "get_stock_changes argsort (now_est_date clk) yf") (simp add: main_def)

lemma main_nonempty:
  assumes "snd (get_stock_changes argsort (now_est_date clk) yf) = report" and "report \<noteq> []"
  shows "main cfg clk argsort yf srv =
           (Print ''Fetching stock data...'' #
              map Print (fst (get_stock_changes argsort (now_est_date clk) yf)) @
              [Print (CHR 0x0A # ''Top 5 Stock Movers:''), PrintTable report,
               Print (CHR 0x0A # ''Sending email...'')] @
              fst (send_email cfg clk srv report),
            snd (send_email cfg clk srv report))"
  using assms
  by (cases "get_stock_changes argsort (now_est_date clk) yf"; cases "send_email cfg clk srv report")
     (simp add: main_def)

lemma send_email_parts:
  "fst (send_email cfg clk srv report) =
     fst (smtp_session cfg srv (compose cfg clk report)) @
       [Print (case snd (smtp_session cfg srv (compose cfg clk report)) of
                 None \<Rightarrow> ''Email sent successfully!''
               | Some e \<Rightarrow> ''Error sending email: '' @ e)]"
  "snd (send_email cfg clk srv report) = snd (smtp_session cfg srv (compose cfg clk report))"
  by (auto simp: send_email_def split: prod.splits option.splits)

lemma no_connect_in_prints: "filter is_connect (map Print out) = []"
  by (induction out) simp_all

lemma no_smtp_in_prints: "\<not> list_ex is_smtp (map Print out)"
  by (induction out) simp_all

lemma takeWhile_prints:
  "takeWhile (\<lambda>ev. \<not> is_smtp ev) (map Print out @ evs) =
     map Print out @ takeWhile (\<lambda>ev. \<not> is_smtp ev) evs"
  by (induction out) simp_all

lemma session_rejected:
  "smtp_session cfg relay_rejecting msg =
     ([SmtpConnect (SMTP_SERVER cfg) (SMTP_PORT cfg), SmtpStartTLS,
       SmtpLogin (SENDER_EMAIL cfg) (SENDER_PASSWORD cfg)],
      Some ''(535, Username and Password not accepted)'')"
  by (simp add: smtp_session_def relay_rejecting_def)

lemma report0_nonempty: "report0 \<noteq> []"
  by (simp add: report0_def)

lemma main_yf0_rejected:
  "main cfg clk0 argsort_stable yf0 relay_rejecting =
     ([Print ''Fetching stock data...'',
       Print ''Error processing GOOGL: connection timed out'',
       Print (CHR 0x0A # ''Top 5 Stock Movers:''), PrintTable report0,
       Print (CHR 0x0A # ''Sending email...''),
       SmtpConnect (SMTP_SERVER cfg) (SMTP_PORT cfg), SmtpStartTLS,
       SmtpLogin (SENDER_EMAIL cfg) (SENDER_PASSWORD cfg),
       Print ''Error sending email: (535, Username and Password not accepted)''],
      Some ''(535, Username and Password not accepted)'')"
proof -
  have g: "get_stock_changes argsort_stable (now_est_date clk0) yf0 =
      ([''Error processing GOOGL: connection timed out''], report0)"
    by (simp add: clk0_def get_stock_changes_yf0)
  show ?thesis
    using main_nonempty[of argsort_stable clk0 yf0 report0 cfg relay_rejecting] report0_nonempty
    by (simp add: g send_email_parts session_rejected)
qed

text \<open>
  C7. When the report is empty, \<open>main\<close> prints the notice, makes no call to the mail
  relay and returns, so the process ends with status 0.
\<close>

theorem empty_report_no_delivery:
  assumes "snd (get_stock_changes argsort (now_est_date clk) yf) = []"
  shows "Print ''No stock data available. Market may be closed or data unavailable.''
           \<in> set (fst (main cfg clk argsort yf srv)) \<and>
         \<not> list_ex is_smtp (fst (main cfg clk argsort yf srv)) \<and>
         snd (main cfg clk argsort yf srv) = None \<and>
         exit_status (snd (main cfg clk argsort yf srv)) = 0"
  using no_smtp_in_prints
  by (simp add: main_empty[OF assms] exit_status_def)

theorem empty_report_no_delivery_witness:
  "snd (get_stock_changes argsort_stable (now_est_date clk0) yf_empty) = [] \<and>
   fst (main cfg0 clk0 argsort_stable yf_empty relay_rejecting) =
     [Print ''Fetching stock data...'',
      Print ''No stock data available. Market may be closed or data unavailable.''] \<and>
   exit_status (snd (main cfg0 clk0 argsort_stable yf_empty relay_rejecting)) = 0"
  using empty_report_no_delivery[of argsort_stable clk0 yf_empty cfg0 relay_rejecting]
  by (simp add: get_stock_changes_yf_empty main_def)

text \<open>
  C8. When the report is not empty and the session with the relay raises \<open>e\<close> (at the
  connection, at STARTTLS, at the login or at the sending), \<open>main\<close> lets \<open>e\<close> through,
  so the process ends with a status other than 0; the relay is connected to once, the last
  thing printed is the error, and the table was printed before the first call to the relay.
\<close>

theorem delivery_failure_is_fatal:
  assumes "snd (get_stock_changes argsort (now_est_date clk) yf) = report" and "report \<noteq> []"
    and "snd (smtp_session cfg srv (compose cfg clk report)) = Some e"
  shows "snd (main cfg clk argsort yf srv) = Some e \<and>
         exit_status (snd (main cfg clk argsort yf srv)) \<noteq> 0 \<and>
         length (filter is_connect (fst (main cfg clk argsort yf srv))) = 1 \<and>
         last (fst (main cfg clk argsort yf srv)) = Print (''Error sending email: '' @ e) \<and>
         PrintTable report
           \<in> set (takeWhile (\<lambda>ev. \<not> is_smtp ev) (fst (main cfg clk argsort yf srv)))"
proof -
  obtain rest where s: "fst (smtp_session cfg srv (compose cfg clk report)) =
        SmtpConnect (SMTP_SERVER cfg) (SMTP_PORT cfg) # rest" and r: "\<not> list_ex is_connect rest"
    using smtp_session_shape by blast
  have f: "filter is_connect rest = []"
    using r by (simp add: list_ex_iff filter_empty_conv)
  show ?thesis
    by (simp add: main_nonempty[OF assms(1,2)] send_email_parts assms(3) s f
        no_connect_in_prints takeWhile_prints exit_status_def)
qed

theorem delivery_failure_is_fatal_witness:
  "snd (get_stock_changes argsort_stable (now_est_date clk0) yf0) = report0 \<and>
   report0 \<noteq> [] \<and>
   snd (smtp_session cfg0 relay_rejecting (compose cfg0 clk0 report0)) =
     Some ''(535, Username and Password not accepted)'' \<and>
   snd (main cfg0 clk0 argsort_stable yf0 relay_rejecting) =
     Some ''(535, Username and Password not accepted)'' \<and>
   exit_status (snd (main cfg0 clk0 argsort_stable yf0 relay_rejecting)) = 1"
  using delivery_failure_is_fatal[of argsort_stable clk0 yf0 report0 cfg0 relay_rejecting
      "''(535, Username and Password not accepted)''"] report0_nonempty
  by (simp add: clk0_def get_stock_changes_yf0 session_rejected main_yf0_rejected
      exit_status_def)

text \<open>
  C9 as stated fails: nothing in the program looks at the three required values before
  the session with the relay. With all three unset and a report to send, the program
  connects to the relay, upgrades to TLS and logs in with \<open>None\<close> as user and password;
  the relay's refusal is printed and raised as any delivery error is. With all three unset
  and nothing to send, the run ends without any error.
\<close>

theorem unset_config_counterexample:
  "config_unset cfg_unset0 \<and>
   filter is_smtp (fst (main cfg_unset0 clk0 argsort_stable yf0 relay_rejecting)) =
     [SmtpConnect ''smtp.gmail.com'' 587, SmtpStartTLS, SmtpLogin None None] \<and>
   last (fst (main cfg_unset0 clk0 argsort_stable yf0 relay_rejecting)) =
     Print ''Error sending email: (535, Username and Password not accepted)'' \<and>
   main cfg_unset0 clk0 argsort_stable yf_empty relay_rejecting =
     ([Print ''Fetching stock data...'',
       Print ''No stock data available. Market may be closed or data unavailable.''], None)"
  by (simp add: main_yf0_rejected config_unset_def cfg_unset0_def
      main_empty get_stock_changes_yf_empty)

text \<open>
  C9, amended. When a required configuration value is unset the program makes no check of
  it. If the report is empty the run ends with status 0 and the relay is not called. If
  the report is not empty the program opens the session with the relay, the unset values
  being passed on as they are; the run fails exactly when that session raises, and the
  failure is printed and raised as a delivery error.
\<close>

theorem unset_config_not_checked:
  assumes "config_unset cfg"
    and "snd (get_stock_changes argsort (now_est_date clk) yf) = report"
  shows "(report = [] \<longrightarrow>
            snd (main cfg clk argsort yf srv) = None \<and>
            \<not> list_ex is_smtp (fst (main cfg clk argsort yf srv))) \<and>
         (report \<noteq> [] \<longrightarrow>
            SmtpConnect (SMTP_SERVER cfg) (SMTP_PORT cfg) \<in> set (fst (main cfg clk argsort yf srv)) \<and>
            snd (main cfg clk argsort yf srv) =
              snd (smtp_session cfg srv (compose cfg clk report)) \<and>
            (\<forall>e. snd (main cfg clk argsort yf srv) = Some e \<longrightarrow>
               last (fst (main cfg clk argsort yf srv)) = Print (''Error sending email: '' @ e)))"
proof (intro conjI impI)
  assume e: "report = []"
  with assms(2) have m: "snd (get_stock_changes argsort (now_est_date clk) yf) = []" by simp
  show "snd (main cfg clk argsort yf srv) = None"
    by (simp add: main_empty[OF m])
  show "\<not> list_ex is_smtp (fst (main cfg clk argsort yf srv))"
    using no_smtp_in_prints by (simp add: main_empty[OF m])
next
  assume n: "report \<noteq> []"
  obtain rest where s: "fst (smtp_session cfg srv (compose cfg clk report)) =
        SmtpConnect (SMTP_SERVER cfg) (SMTP_PORT cfg) # rest"
    using smtp_session_shape by blast
  show "SmtpConnect (SMTP_SERVER cfg) (SMTP_PORT cfg) \<in> set (fst (main cfg clk argsort yf srv))"
    by (simp add: main_nonempty[OF assms(2) n] send_email_parts s)
  show "snd (main cfg clk argsort yf srv) = snd (smtp_session cfg srv (compose cfg clk report))"
    by (simp add: main_nonempty[OF assms(2) n] send_email_parts)
  show "\<forall>e. snd (main cfg clk argsort yf srv) = Some e \<longrightarrow>
          last (fst (main cfg clk argsort yf srv)) = Print (''Error sending email: '' @ e)"
    by (simp add: main_nonempty[OF assms(2) n] send_email_parts)
qed

theorem unset_config_not_checked_witness:
  "config_unset cfg_unset0 \<and>
   snd (get_stock_changes argsort_stable (now_est_date clk0) yf0) = report0 \<and>
   report0 \<noteq> [] \<and>
   SmtpConnect ''smtp.gmail.com'' 587
     \<in> set (fst (main cfg_unset0 clk0 argsort_stable yf0 relay_rejecting)) \<and>
   snd (main cfg_unset0 clk0 argsort_stable yf0 relay_rejecting) =
     Some ''(535, Username and Password not accepted)''"
proof -
  have u: "config_unset cfg_unset0"
    by (simp add: config_unset_def cfg_unset0_def)
  have g: "snd (get_stock_changes argsort_stable (now_est_date clk0) yf0) = report0"
    by (simp add: clk0_def get_stock_changes_yf0)
  have c: "SMTP_SERVER cfg_unset0 = ''smtp.gmail.com''" "SMTP_PORT cfg_unset0 = 587"
    by (simp_all add: cfg_unset0_def)
  show ?thesis
    using unset_config_not_checked[OF u g, of relay_rejecting] report0_nonempty u g c
    by (simp add: main_yf0_rejected)
qed

text \<open>
  C10. In the message, the class of a row is \<open>positive\<close> when the record's percent change
  is greater than zero and \<open>negative\<close> otherwise; a percent change of exactly zero gives
  \<open>negative\<close>.
\<close>

theorem row_class_sign:
  "map row_class (msg_rows (compose cfg clk report)) =
     map (\<lambda>r. if fless (Fin 0) (Change_pct r) then ''positive'' else ''negative'') report \<and>
   (row_class (render_row r) = ''positive'') = fless (Fin 0) (Change_pct r) \<and>
   (row_class (render_row r) = ''negative'') = (\<not> fless (Fin 0) (Change_pct r)) \<and>
   row_class (render_row (r\<lparr>Change_pct := Fin 0\<rparr>)) = ''negative''"
  by (simp add: compose_def render_row_def change_class_def)

theorem row_class_sign_witness:
  "map row_class (msg_rows (compose cfg0 clk0 report0)) =
     [''positive'', ''positive'', ''positive'', ''negative'', ''negative''] \<and>
   row_class (render_row \<lparr>Ticker = ''V'', Open_price = Fin 100, TenAM_price = Fin 100,
                           Change = Fin 0, Change_pct = Fin 0\<rparr>) = ''negative''"
  using row_class_sign[of cfg0 clk0 report0
      "\<lparr>Ticker = ''V'', Open_price = Fin 100, TenAM_price = Fin 100, Change = Fin 0,
        Change_pct = Fin 0\<rparr>"]
  by (simp add: report0_def)

end
